theory Spec2Isabelle
  imports Main "HOL-Library.AList"
begin

section \<open>Values of the source language\<close>

text \<open>
  The program is JavaScript. Its values are embedded as a datatype: the primitives; plain
  objects (those whose prototype is \<open>Object.prototype\<close>), given by their own
  enumerable properties in the order of their creation (an array inside a request is an
  object with the properties \<open>0\<close>, \<open>1\<close>, ...); plain objects that
  \<open>Object.freeze\<close> has frozen; the object \<open>Object.prototype\<close>, from
  which every plain object inherits; and functions as identifiers that a function table
  interprets. Numbers are only inspected through \<open>typeof\<close> and truthiness, so integers
  stand for them. The properties of primitives and of functions are not modelled: a read
  of one gives \<open>undefined\<close>.
\<close>

datatype jsval =
    JUndefined
  | JNull
  | JBool bool
  | JNum int
  | JStr string
  | JObj "(string \<times> jsval) list"
  | JFun nat
  | JFrozen "(string \<times> jsval) list"
  | JObjectProto

fun typeof :: "jsval \<Rightarrow> string" where
  "typeof JUndefined = ''undefined''"
| "typeof JNull = ''object''"
| "typeof (JBool b) = ''boolean''"
| "typeof (JNum n) = ''number''"
| "typeof (JStr s) = ''string''"
| "typeof (JObj fs) = ''object''"
| "typeof (JFun f) = ''function''"
| "typeof (JFrozen fs) = ''object''"
| "typeof JObjectProto = ''object''"

fun truthy :: "jsval \<Rightarrow> bool" where
  "truthy JUndefined = False"
| "truthy JNull = False"
| "truthy (JBool b) = b"
| "truthy (JNum n) = (n \<noteq> 0)"
| "truthy (JStr s) = (s \<noteq> [])"
| "truthy (JObj fs) = True"
| "truthy (JFun f) = True"
| "truthy (JFrozen fs) = True"
| "truthy JObjectProto = True"

text \<open>
  \<open>v instanceof Object\<close>: objects and functions, no primitive, and not
  \<open>Object.prototype\<close> itself, whose own prototype is \<open>null\<close>.
\<close>

fun instanceof_Object :: "jsval \<Rightarrow> bool" where
  "instanceof_Object (JObj fs) = True"
| "instanceof_Object (JFun f) = True"
| "instanceof_Object (JFrozen fs) = True"
| "instanceof_Object v = False"

text \<open>
  The read of an own enumerable property: \<open>o[k]\<close> where \<open>k\<close> is one of
  \<open>Object.keys(o)\<close>, and \<open>undefined\<close> for every other name.
\<close>

fun js_get :: "jsval \<Rightarrow> string \<Rightarrow> jsval" where
  "js_get (JObj fs) k = (case map_of fs k of Some v \<Rightarrow> v | None \<Rightarrow> JUndefined)"
| "js_get (JFrozen fs) k = (case map_of fs k of Some v \<Rightarrow> v | None \<Rightarrow> JUndefined)"
| "js_get v k = JUndefined"

text \<open>
  The functions that every plain object inherits from \<open>Object.prototype\<close>. As values
  they are function identifiers from \<open>native_base\<close> on, in the order of the list, so
  the function table gives their behaviour as it does for every other function.
\<close>

definition native_names :: "string list" where
  "native_names =
     [''constructor'', ''__defineGetter__'', ''__defineSetter__'', ''hasOwnProperty'',
      ''__lookupGetter__'', ''__lookupSetter__'', ''isPrototypeOf'', ''propertyIsEnumerable'',
      ''toString'', ''valueOf'', ''toLocaleString'']"

definition native_base :: nat where
  "native_base = 1000"

fun index_of :: "'a \<Rightarrow> 'a list \<Rightarrow> nat" where
  "index_of x [] = 0"
| "index_of x (y # ys) = (if x = y then 0 else Suc (index_of x ys))"

definition native_fun :: "string \<Rightarrow> jsval" where
  "native_fun k = JFun (native_base + index_of k native_names)"

text \<open>
  The read \<open>o[k]\<close> of any property name on a value that is neither \<open>undefined\<close> nor
  \<open>null\<close> (the callers guard those two): an own property, or else one inherited from
  \<open>Object.prototype\<close>, where \<open>__proto__\<close> gives the prototype itself.
\<close>

definition inherited :: "string \<Rightarrow> jsval" where
  "inherited k =
     (if k \<in> set native_names then native_fun k
      else if k = ''__proto__'' then JObjectProto
      else JUndefined)"

fun js_read :: "jsval \<Rightarrow> string \<Rightarrow> jsval" where
  "js_read (JObj fs) k = (case map_of fs k of Some v \<Rightarrow> v | None \<Rightarrow> inherited k)"
| "js_read (JFrozen fs) k = (case map_of fs k of Some v \<Rightarrow> v | None \<Rightarrow> inherited k)"
| "js_read JObjectProto k =
     (if k \<in> set native_names then native_fun k
      else if k = ''__proto__'' then JNull
      else JUndefined)"
| "js_read v k = JUndefined"

text \<open>\<open>'value' in v\<close> for an object or a function: nothing inherited has that name.\<close>

fun js_in :: "string \<Rightarrow> jsval \<Rightarrow> bool" where
  "js_in k (JObj fs) = (map_of fs k \<noteq> None \<or> k \<in> set native_names \<or> k = ''__proto__'')"
| "js_in k (JFrozen fs) = (map_of fs k \<noteq> None \<or> k \<in> set native_names \<or> k = ''__proto__'')"
| "js_in k JObjectProto = (k \<in> set native_names \<or> k = ''__proto__'')"
| "js_in k v = False"

text \<open>
  The assignment \<open>o[k] = x\<close> on the properties of a plain object that is not frozen.
  An assignment to \<open>__proto__\<close> adds no property (it sets the prototype when \<open>x\<close> is
  an object, which is not modelled, and does nothing otherwise).
\<close>

definition set_property :: "string \<Rightarrow> jsval \<Rightarrow> (string \<times> jsval) list \<Rightarrow> (string \<times> jsval) list" where
  "set_property k x fs = (if k = ''__proto__'' then fs else AList.update k x fs)"

text \<open>The own enumerable properties of an object, if the value is one.\<close>

fun fields_of :: "jsval \<Rightarrow> (string \<times> jsval) list option" where
  "fields_of (JObj fs) = Some fs"
| "fields_of (JFrozen fs) = Some fs"
| "fields_of JObjectProto = Some []"
| "fields_of v = None"

text \<open>
  \<open>Object.keys(o)\<close>: the property names, each once; first those that are array
  indices, in ascending order, then the others in the order of their creation.
\<close>

fun uniq :: "'a list \<Rightarrow> 'a list" where
  "uniq [] = []"
| "uniq (x # xs) = x # uniq (filter (\<lambda>y. y \<noteq> x) xs)"

definition digit_value :: "char \<Rightarrow> nat option" where
  "digit_value c =
     (if c \<in> set ''0123456789'' then Some (index_of c ''0123456789'') else None)"

fun decimal :: "string \<Rightarrow> nat \<Rightarrow> nat option" where
  "decimal [] acc = Some acc"
| "decimal (c # cs) acc =
     (case digit_value c of None \<Rightarrow> None | Some d \<Rightarrow> decimal cs (10 * acc + d))"

text \<open>
  An array index is the canonical decimal numeral of an integer below \<open>2^32 - 1\<close>.
\<close>

definition array_index :: "string \<Rightarrow> nat option" where
  "array_index k =
     (if k = [] \<or> (length k > 1 \<and> hd k = CHR ''0'') then None
      else (case decimal k 0 of
              None \<Rightarrow> None
            | Some n \<Rightarrow> if n < 4294967295 then Some n else None))"

definition ordered_keys :: "string list \<Rightarrow> string list" where
  "ordered_keys ks =
     sort_key (\<lambda>k. the (array_index k)) (filter (\<lambda>k. array_index k \<noteq> None) ks) @
     filter (\<lambda>k. array_index k = None) ks"

definition object_keys :: "jsval \<Rightarrow> string list" where
  "object_keys v = (case fields_of v of Some fs \<Rightarrow> ordered_keys (uniq (map fst fs)) | None \<Rightarrow> [])"

definition startsWith :: "string \<Rightarrow> string \<Rightarrow> bool" where
  "startsWith s p = (take (length p) s = p)"

text \<open>The three prefixes of a parameter definition given as a string.\<close>

definition valid_prefix :: "string \<Rightarrow> bool" where
  "valid_prefix s = (startsWith s ''?'' \<or> startsWith s ''$'' \<or> startsWith s ''req.'')"

section \<open>Errors\<close>

text \<open>
  Every \<open>throw new Error(...)\<close> of the source is a constructor carrying the values its
  message interpolates; it stands for the throw at that place (when the conversion of an
  interpolated object to a string throws by itself, that error is the one thrown there).
  \<open>JsTypeError\<close> stands for the TypeError the runtime raises on a call of a
  non-function or a property read on \<open>undefined\<close>.
\<close>

datatype target = TargetNull | TargetString string | TargetArray "string list"

datatype thrown = UserThrown jsval | NotAFunction string

datatype error =
    NotValidatorObject string jsval
  | MalformedTarget string target
  | NamespaceNotFound string "string list"
  | SchemeNotFound string string "string list"
  | InvalidMethodType "string option"
  | MissingValueField string
  | InvalidDefinitionPrefix string string
  | JsTypeError string
  | Propagated thrown
  | AlreadyFinalizedMethod string
  | InvalidArgumentList string nat
  | AlreadyFinalizedParam string
  | InvalidParamString string
  | InvalidParamValue string string jsval
  | ValidationNameNotString string jsval
  | NoValidationNames string
  | ProviderNotObject string jsval
  | AlreadyRegistered string string
  | InvalidParamsPrefix string string string
  | InvalidParamsType string string string string jsval

section \<open>The provider store (main.js)\<close>

text \<open>
  \<open>namespaces\<close> maps a namespace to its schemes; a scheme entry is the object
  \<open>{name, validations, provider}\<close> that \<open>register\<close> stores.
\<close>

record scheme_entry =
  e_name :: string
  validations :: "string list"
  provider :: jsval

type_synonym registry = "(string \<times> (string \<times> scheme_entry) list) list"

definition initial_namespaces :: registry where
  "initial_namespaces = [(''global'', [])]"

definition reserved_names :: "string list" where
  "reserved_names = [''before'', ''after'', ''params'', ''error'']"

text \<open>
  \<open>(typeof namespace !== 'string') || (namespace.length === 0)\<close> selects the default.
\<close>

fun default_namespace :: "jsval \<Rightarrow> string" where
  "default_namespace (JStr s) = (if s = [] then ''global'' else s)"
| "default_namespace v = ''global''"

text \<open>The \<open>for ... in provider._params\<close> loop: the first bad entry throws.\<close>

fun validate_params :: "string \<Rightarrow> string \<Rightarrow> (string \<times> jsval) list \<Rightarrow> string list \<Rightarrow> error option" where
  "validate_params name ns ps [] = None"
| "validate_params name ns ps (key # keys) =
     (case js_get (JObj ps) key of
        JStr paramDef \<Rightarrow>
          (if \<not> startsWith paramDef ''?'' \<and> \<not> startsWith paramDef ''$'' \<and> \<not> startsWith paramDef ''req.''
           then Some (InvalidParamsPrefix name ns key)
           else validate_params name ns ps keys)
      | paramDef \<Rightarrow> Some (InvalidParamsType name ns key (typeof paramDef) paramDef))"

definition extract_validations :: "jsval \<Rightarrow> string list" where
  "extract_validations p =
     filter (\<lambda>k. k \<notin> set reserved_names)
       (filter (\<lambda>k. typeof (js_get p k) = ''function'') (object_keys p))"

text \<open>
  \<open>register\<close> returns the error it throws, if any, and the store it leaves: a new
  namespace is created before the checks that may still throw. The test \<open>ns[name]\<close>
  is also true of a name that the namespace object inherits. The namespace itself is
  looked up among the own properties of the store.
\<close>

definition register :: "jsval \<Rightarrow> string \<Rightarrow> jsval \<Rightarrow> registry \<Rightarrow> error option \<times> registry" where
  "register p name namespace namespaces =
     (if \<not> truthy p \<or> typeof p \<noteq> ''object'' then (Some (ProviderNotObject (typeof p) p), namespaces)
      else
        let nsname = default_namespace namespace;
            namespaces1 = (case map_of namespaces nsname of
                             Some ns \<Rightarrow> namespaces
                           | None \<Rightarrow> AList.update nsname [] namespaces);
            ns = (case map_of namespaces1 nsname of Some ns \<Rightarrow> ns | None \<Rightarrow> [])
        in if map_of ns name \<noteq> None \<or> truthy (inherited name)
           then (Some (AlreadyRegistered name nsname), namespaces1)
           else
             (case (case fields_of (js_get p ''_params'') of
                      Some ps \<Rightarrow> validate_params name nsname ps (object_keys (JObj ps))
                    | None \<Rightarrow> None) of
                Some e \<Rightarrow> (Some e, namespaces1)
              | None \<Rightarrow>
                  (None,
                   AList.update nsname
                     (AList.update name
                        \<lparr>e_name = name, validations = extract_validations p, provider = p\<rparr> ns)
                     namespaces1)))"

text \<open>
  \<open>unregister\<close> returns the removed entry (\<open>None\<close> for \<open>undefined\<close>) and the store.
  For a name that the namespace object inherits and does not hold itself, the source
  returns the inherited value; the store is unchanged, as here.
\<close>

definition unregister :: "string \<Rightarrow> jsval \<Rightarrow> registry \<Rightarrow> scheme_entry option \<times> registry" where
  "unregister name namespace namespaces =
     (let nsname = default_namespace namespace in
      case map_of namespaces nsname of
        None \<Rightarrow> (None, namespaces)
      | Some ns \<Rightarrow> (map_of ns name, AList.update nsname (AList.delete name ns) namespaces))"

text \<open>The store after a sequence of calls, starting from the initial one.\<close>

datatype registry_call = Register jsval string jsval | Unregister string jsval

fun apply_call :: "registry_call \<Rightarrow> registry \<Rightarrow> registry" where
  "apply_call (Register p name namespace) namespaces = snd (register p name namespace namespaces)"
| "apply_call (Unregister name namespace) namespaces = snd (unregister name namespace namespaces)"

definition run_calls :: "registry_call list \<Rightarrow> registry" where
  "run_calls calls = foldl (\<lambda>namespaces c. apply_call c namespaces) initial_namespaces calls"

text \<open>The scheme entry stored under a namespace and a name.\<close>

definition lookup_entry :: "registry \<Rightarrow> string \<Rightarrow> string \<Rightarrow> scheme_entry option" where
  "lookup_entry namespaces nsname name =
     (case map_of namespaces nsname of None \<Rightarrow> None | Some ns \<Rightarrow> map_of ns name)"

text \<open>
  What holds of every stored entry: each validation name is callable on the provider and
  is no lifecycle name.
\<close>

definition entry_ok :: "scheme_entry \<Rightarrow> bool" where
  "entry_ok e =
     (\<forall>k \<in> set (validations e).
        k \<notin> set reserved_names \<and> typeof (js_get (provider e) k) = ''function'')"

definition registry_ok :: "registry \<Rightarrow> bool" where
  "registry_ok namespaces = (\<forall>ns \<in> snd ` set namespaces. \<forall>e \<in> snd ` set ns. entry_ok e)"

section \<open>The validator builder (validator.js)\<close>

text \<open>
  The fields of the \<open>Validator\<close> class. \<open>method\<close> is \<open>null\<close> or a string,
  \<open>target\<close> is \<open>null\<close>, the string \<open>*\<close> or an array of names, and
  \<open>execParallel\<close> is \<open>undefined\<close> or a boolean. Scheme name and namespace are
  strings, as \<open>for\<close> in main.js documents them. The inherited function
  \<open>__defineGetter__\<close>, which the proxy makes callable, can turn \<open>target\<close> into an
  accessor property: \<open>v_target_getter\<close> then holds the getter function, and
  \<open>v_target\<close> the data value that the accessor has replaced. Freezing \<open>params\<close>
  and \<open>target\<close> is not modelled: the proxy lets nothing write to them after
  finalization.
\<close>

record validator =
  v_name :: string
  v_namespace :: string
  v_params :: "(string \<times> jsval) list"
  v_finalized :: bool
  v_method :: "string option"
  v_target :: target
  v_execParallel :: "bool option"
  v_target_getter :: "nat option"

text \<open>The object \<open>compile\<close> returns; \<open>parallel\<close> is absent unless a boolean was set.\<close>

record descriptor =
  d_namespace :: string
  d_scheme :: string
  d_method :: "string option"
  d_params :: "(string \<times> jsval) list"
  d_target :: target
  d_parallel :: "bool option"

text \<open>\<open>new Validator(schemeName, schemeNamespace)\<close>, as \<open>create\<close> calls it.\<close>

definition create :: "string \<Rightarrow> string \<Rightarrow> validator" where
  "create schemeName schemeNamespace =
     \<lparr>v_name = schemeName, v_namespace = schemeNamespace, v_params = [],
      v_finalized = False, v_method = None, v_target = TargetNull, v_execParallel = None,
      v_target_getter = None\<rparr>"

text \<open>
  The assignment \<open>this.target = x\<close> in a method of the class, which is strict code: it
  throws a TypeError when \<open>target\<close> is an accessor property with a getter only.
\<close>

definition assign_target :: "target \<Rightarrow> validator \<Rightarrow> error option \<times> validator" where
  "assign_target x v =
     (case v_target_getter v of
        None \<Rightarrow> (None, v\<lparr>v_target := x\<rparr>)
      | Some f \<Rightarrow> (Some (JsTypeError ''cannot set property target which has only a getter''), v))"

definition all_method :: "validator \<Rightarrow> error option \<times> validator" where
  "all_method v = assign_target (TargetString ''*'') (v\<lparr>v_finalized := True, v_method := Some ''all''\<rparr>)"

definition any_method :: "validator \<Rightarrow> error option \<times> validator" where
  "any_method v = assign_target (TargetString ''*'') (v\<lparr>v_finalized := True, v_method := Some ''any''\<rparr>)"

text \<open>
  The \<open>forEach\<close> of \<open>allOf\<close> and \<open>anyOf\<close>: names are pushed until the first
  argument that is no string, which throws and leaves the names pushed so far.
\<close>

fun push_names :: "jsval list \<Rightarrow> string list \<Rightarrow> error option \<times> string list" where
  "push_names [] acc = (None, acc)"
| "push_names (JStr s # rest) acc = push_names rest (acc @ [s])"
| "push_names (validation # rest) acc =
     (Some (ValidationNameNotString (typeof validation) validation), acc)"

text \<open>
  \<open>allOf\<close> and \<open>anyOf\<close> differ in the method name only. They set \<open>finalized\<close>
  first, so a call that throws leaves the validator finalized.
\<close>

definition names_method :: "string \<Rightarrow> jsval list \<Rightarrow> validator \<Rightarrow> error option \<times> validator" where
  "names_method m validationNames v =
     (case assign_target (TargetArray []) (v\<lparr>v_finalized := True, v_method := Some m\<rparr>) of
        (Some e, v1) \<Rightarrow> (Some e, v1)
      | (None, v1) \<Rightarrow>
          (case push_names validationNames [] of
             (Some e, names) \<Rightarrow> (Some e, v1\<lparr>v_target := TargetArray names\<rparr>)
           | (None, names) \<Rightarrow>
               (if length names = 0
                then (Some (NoValidationNames m), v1\<lparr>v_target := TargetArray names\<rparr>)
                else (None, v1\<lparr>v_target := TargetArray names\<rparr>))))"

definition allOf :: "jsval list \<Rightarrow> validator \<Rightarrow> error option \<times> validator" where
  "allOf = names_method ''allOf''"

definition anyOf :: "jsval list \<Rightarrow> validator \<Rightarrow> error option \<times> validator" where
  "anyOf = names_method ''anyOf''"

definition parallel :: "validator \<Rightarrow> validator" where
  "parallel v = v\<lparr>v_execParallel := Some True\<rparr>"

text \<open>
  \<open>compile\<close> reads the properties of the validator. When \<open>target\<close> is an accessor
  property, the \<open>target\<close> of the object returned is what the getter returns, which the
  function table gives: the record returned here then holds the replaced data value, and
  the call through the proxy returns the getter with it.
\<close>

definition compile :: "validator \<Rightarrow> descriptor" where
  "compile v =
     \<lparr>d_namespace = v_namespace v, d_scheme = v_name v, d_method = v_method v,
      d_params = v_params v, d_target = v_target v, d_parallel = v_execParallel v\<rparr>"

text \<open>
  The proxy that \<open>create\<close> returns. A call \<open>proxy.property(...args)\<close> goes through
  the \<open>get\<close> trap: a property whose value on the validator is a function is wrapped with
  the finalization check, any other property yields the function that sets a parameter.
  The function-valued properties are the methods of the class and the functions inherited
  from \<open>Object.prototype\<close> (\<open>constructor\<close> being the class itself). A call returns
  the proxy itself, the compiled descriptor, or another value, and leaves the validator in
  a new state.
\<close>

definition validator_methods :: "string list" where
  "validator_methods =
     [''all'', ''any'', ''allOf'', ''anyOf'', ''parallel'', ''compile'', ''inspect'']"

definition function_properties :: "string list" where
  "function_properties = validator_methods @ native_names"

text \<open>
  What a call returns: the proxy; the object that \<open>compile\<close> made, with the getter
  that gives its \<open>target\<close> when that is an accessor property; the empty object of
  \<open>inspect\<close>; a value; or the completion of an inherited function that is not
  computed here (\<open>hasOwnProperty\<close> and the like, which leave the validator as it is,
  and the definition of an accessor property other than a getter for \<open>target\<close>, after
  which the record no longer describes the validator).
\<close>

datatype retval =
    RetProxy
  | RetDescriptor descriptor
  | RetDescriptorGetter descriptor nat
  | RetEmptyObject
  | RetValue jsval
  | RetNative string "jsval list"

definition call_method :: "string \<Rightarrow> jsval list \<Rightarrow> validator \<Rightarrow> (error + retval) \<times> validator" where
  "call_method property args v =
     (if property = ''all'' then
        (case all_method v of (Some e, v') \<Rightarrow> (Inl e, v') | (None, v') \<Rightarrow> (Inr RetProxy, v'))
      else if property = ''any'' then
        (case any_method v of (Some e, v') \<Rightarrow> (Inl e, v') | (None, v') \<Rightarrow> (Inr RetProxy, v'))
      else if property = ''allOf'' then
        (case allOf args v of (Some e, v') \<Rightarrow> (Inl e, v') | (None, v') \<Rightarrow> (Inr RetProxy, v'))
      else if property = ''anyOf'' then
        (case anyOf args v of (Some e, v') \<Rightarrow> (Inl e, v') | (None, v') \<Rightarrow> (Inr RetProxy, v'))
      else if property = ''parallel'' then (Inr RetProxy, parallel v)
      else if property = ''compile'' then
        (case v_target_getter v of
           None \<Rightarrow> (Inr (RetDescriptor (compile v)), v)
         | Some f \<Rightarrow> (Inr (RetDescriptorGetter (compile v) f), v))
      else (Inr RetEmptyObject, v))"

text \<open>
  A function inherited from \<open>Object.prototype\<close>, applied to the validator. The class
  cannot be called without \<open>new\<close>; \<open>valueOf\<close> returns the validator, for which the
  wrapper returns the proxy; \<open>__defineGetter__\<close> and \<open>__defineSetter__\<close> throw unless
  their second argument is a function.
\<close>

definition call_native :: "string \<Rightarrow> jsval list \<Rightarrow> validator \<Rightarrow> (error + retval) \<times> validator" where
  "call_native property args v =
     (if property = ''constructor'' then
        (Inl (JsTypeError ''class constructor Validator cannot be invoked without new''), v)
      else if property = ''valueOf'' then (Inr RetProxy, v)
      else if property = ''toString'' \<or> property = ''toLocaleString'' then
        (Inr (RetValue (JStr ''[object Object]'')), v)
      else if property = ''__defineGetter__'' \<or> property = ''__defineSetter__'' then
        (case args of
           p # JFun f # rest \<Rightarrow>
             (if property = ''__defineGetter__'' \<and> p = JStr ''target''
              then (Inr (RetValue JUndefined), v\<lparr>v_target_getter := Some f\<rparr>)
              else (Inr (RetNative property args), v))
         | _ \<Rightarrow> (Inl (JsTypeError ''expecting a function''), v))
      else (Inr (RetNative property args), v))"

text \<open>
  The function the \<open>get\<close> trap returns for a property that is no function.
\<close>

definition set_parameter :: "string \<Rightarrow> jsval list \<Rightarrow> validator \<Rightarrow> (error + retval) \<times> validator" where
  "set_parameter property args v =
     (if length args \<noteq> 1 then (Inl (InvalidArgumentList property (length args)), v)
      else if v_finalized v then (Inl (AlreadyFinalizedParam property), v)
      else
        (case hd args of
           JStr s \<Rightarrow>
             (if \<not> startsWith s ''?'' \<and> \<not> startsWith s ''$'' \<and> \<not> startsWith s ''req.''
              then (Inl (InvalidParamString property), v)
              else (Inr RetProxy, v\<lparr>v_params := set_property property (JStr s) (v_params v)\<rparr>))
         | a \<Rightarrow> (Inl (InvalidParamValue property (typeof a) a), v)))"

definition proxy_call :: "string \<Rightarrow> jsval list \<Rightarrow> validator \<Rightarrow> (error + retval) \<times> validator" where
  "proxy_call property args v =
     (if property \<in> set function_properties then
        (if v_finalized v \<and> property \<noteq> ''compile'' \<and> property \<noteq> ''inspect''
         then (Inl (AlreadyFinalizedMethod property), v)
         else if property \<in> set validator_methods then call_method property args v
         else call_native property args v)
      else set_parameter property args v)"

text \<open>A chain of calls on one proxy; a call that throws is caught by the caller.\<close>

definition proxy_calls :: "(string \<times> jsval list) list \<Rightarrow> validator \<Rightarrow> validator" where
  "proxy_calls calls v = foldl (\<lambda>v c. snd (proxy_call (fst c) (snd c) v)) v calls"

definition terminal_methods :: "string list" where
  "terminal_methods = [''all'', ''any'', ''allOf'', ''anyOf'']"

text \<open>The two inherited functions that define accessor properties.\<close>

definition accessor_definers :: "string list" where
  "accessor_definers = [''__defineGetter__'', ''__defineSetter__'']"

section \<open>Requests, functions and parameter extraction (matcher.js)\<close>

text \<open>
  A request is the object \<open>req\<close>, given by its properties. A function value is called
  in one of three ways by the program: as a validation \<open>f(params, req)\<close>, as a
  lifecycle hook \<open>f(req, defs, exports)\<close>, or as the parameter lookup
  \<open>req.param(name)\<close>. The function table gives the behaviour of each function
  identifier under each of them, and what it returns when it is called without arguments
  as the getter of \<open>target\<close> (a \<open>null\<close>, a string or an array of names). A
  validation does not write to the request. It throws before it returns; or it returns a
  value or a promise that is settled already (an \<open>async\<close> function that returns or
  throws before its first \<open>await\<close>); or it returns a promise that settles later, after
  the function has waited for something outside the program (a timer, a query). A hook
  may write to all three of its arguments and may throw: it returns the thrown value, if
  any, and the three arguments as it leaves them.
\<close>

type_synonym request = "(string \<times> jsval) list"

datatype outcome =
    Resolves jsval
  | Rejects jsval
  | ThrowsSync jsval
  | ResolvesLater jsval
  | RejectsLater jsval

record jsfun =
  as_validation :: "(string \<times> jsval) list \<Rightarrow> request \<Rightarrow> outcome"
  as_hook :: "request \<Rightarrow> (string \<times> jsval) list \<Rightarrow> (string \<times> jsval) list \<Rightarrow>
              jsval option \<times> request \<times> (string \<times> jsval) list \<times> (string \<times> jsval) list"
  as_param :: "request \<Rightarrow> string \<Rightarrow> jsval"
  as_getter :: target

type_synonym fun_table = "nat \<Rightarrow> jsfun"

text \<open>\<open>s.split(c)\<close> for a one-character separator.\<close>

fun js_split :: "char \<Rightarrow> string \<Rightarrow> string list" where
  "js_split c [] = [[]]"
| "js_split c (x # xs) =
     (if x = c then [] # js_split c xs
      else (case js_split c xs of p # ps \<Rightarrow> (x # p) # ps | [] \<Rightarrow> [[x]]))"

text \<open>The function passed to \<open>pieces.reduce\<close>.\<close>

definition traverse_step :: "jsval \<Rightarrow> string \<Rightarrow> jsval" where
  "traverse_step acc key =
     (if \<not> truthy acc \<or> typeof acc \<noteq> ''object'' then JUndefined else js_read acc key)"

text \<open>
  The resolution of a field path as the specification words it, for comparison with the
  reducer of the source: the request is walked field by field; a piece that is missing,
  or a value reached that cannot be walked into (a primitive, \<open>null\<close>, a function),
  gives the absent value \<open>undefined\<close>; otherwise the walk ends at the value of the last
  field, whatever it is.
\<close>

fun traversable :: "jsval \<Rightarrow> bool" where
  "traversable (JObj fs) = True"
| "traversable (JFrozen fs) = True"
| "traversable JObjectProto = True"
| "traversable v = False"

fun walk_fields :: "jsval \<Rightarrow> string list \<Rightarrow> jsval" where
  "walk_fields v [] = v"
| "walk_fields v (k # ks) =
     (if traversable v \<and> js_in k v then walk_fields (js_read v k) ks else JUndefined)"

text \<open>
  The helper \<open>extract\<close> (the name is a command of Isabelle, hence the suffix); a definition is the pair of its \<open>name\<close> and \<open>value\<close>.
\<close>

definition extract_param :: "fun_table \<Rightarrow> request \<Rightarrow> string \<times> jsval \<Rightarrow> error + jsval" where
  "extract_param funs req d =
     (let name = fst d; val = snd d in
      if instanceof_Object val then
        (if \<not> js_in ''value'' val then Inl (MissingValueField name)
         else Inr (js_read val ''value''))
      else
        (case val of
           JStr s \<Rightarrow>
             (if startsWith s ''?'' then
                (case js_read (JObj req) ''param'' of
                   JFun f \<Rightarrow> Inr (as_param (funs f) req (drop 1 s))
                 | v \<Rightarrow> Inl (JsTypeError ''req.param is not a function''))
              else if startsWith s ''$'' then
                (case js_read (JObj req) ''cookies'' of
                   JUndefined \<Rightarrow> Inl (JsTypeError ''cannot read a property of undefined'')
                 | JNull \<Rightarrow> Inl (JsTypeError ''cannot read a property of null'')
                 | cookies \<Rightarrow> Inr (js_read cookies (drop 1 s)))
              else if \<not> startsWith s ''req.'' then Inl (InvalidDefinitionPrefix name s)
              else Inr (foldl traverse_step (JObj req) (tl (js_split CHR ''.'' s))))
         | v \<Rightarrow> Inl (JsTypeError ''definition.value.startsWith is not a function'')))"

text \<open>Merging the overrides over the provider's defaults, one definition per default.\<close>

definition merge_defs :: "(string \<times> jsval) list \<Rightarrow> (string \<times> jsval) list \<Rightarrow> (string \<times> jsval) list" where
  "merge_defs overrideDefs baseParams =
     map (\<lambda>paramName.
            let maybeOverrideValue = js_read (JObj overrideDefs) paramName in
            (paramName,
             if typeof maybeOverrideValue \<noteq> ''undefined'' then maybeOverrideValue
             else js_get (JObj baseParams) paramName))
         (object_keys (JObj baseParams))"

text \<open>The \<open>paramDefs.forEach\<close> that fills \<open>outParams\<close>; the first throw ends it.\<close>

fun extract_all :: "fun_table \<Rightarrow> request \<Rightarrow> (string \<times> jsval) list \<Rightarrow> (string \<times> jsval) list \<Rightarrow>
                    error + (string \<times> jsval) list" where
  "extract_all funs req [] outParams = Inr outParams"
| "extract_all funs req (d # ds) outParams =
     (case extract_param funs req d of
        Inl e \<Rightarrow> Inl e
      | Inr v \<Rightarrow> extract_all funs req ds (set_property (fst d) v outParams))"

text \<open>\<open>if (typeof provider.hook === 'function') await provider.hook(req, arg, exports)\<close>.\<close>

definition run_hook :: "fun_table \<Rightarrow> jsval \<Rightarrow> string \<Rightarrow> request \<Rightarrow> (string \<times> jsval) list \<Rightarrow>
                        (string \<times> jsval) list \<Rightarrow>
                        jsval option \<times> request \<times> (string \<times> jsval) list \<times> (string \<times> jsval) list" where
  "run_hook funs p hook req arg exports =
     (case js_read p hook of
        JFun f \<Rightarrow> as_hook (funs f) req arg exports
      | v \<Rightarrow> (None, req, arg, exports))"

text \<open>
  \<open>extractParams\<close> up to and including the \<open>params\<close> handler: the resolved
  parameters and the exports, or the error thrown, and the request as the handlers left it.
  The overrides are the \<open>params\<close> object of the compiled validator, so the default
  \<open>{}\<close> for a value that is no object is not needed; \<open>.filter(p => p)\<close> keeps
  every definition, each being an object.
\<close>

definition resolve_params :: "fun_table \<Rightarrow> request \<Rightarrow> (string \<times> jsval) list \<Rightarrow> jsval \<Rightarrow>
     (error + (string \<times> jsval) list \<times> (string \<times> jsval) list) \<times> request" where
  "resolve_params funs req overrideDefs p =
     (let baseParams = (case fields_of (js_read p ''_params'') of Some ps \<Rightarrow> ps | None \<Rightarrow> []);
          paramDefs = merge_defs overrideDefs baseParams
      in case run_hook funs p ''before'' req paramDefs [] of
           (Some e, req1, paramDefs1, providerExports1) \<Rightarrow> (Inl (Propagated (UserThrown e)), req1)
         | (None, req1, paramDefs1, providerExports1) \<Rightarrow>
             (case extract_all funs req1 paramDefs1 [] of
                Inl e \<Rightarrow> (Inl e, req1)
              | Inr outParams \<Rightarrow>
                  (case run_hook funs p ''params'' req1 outParams providerExports1 of
                     (Some e, req2, outParams2, providerExports2) \<Rightarrow>
                       (Inl (Propagated (UserThrown e)), req2)
                   | (None, req2, outParams2, providerExports2) \<Rightarrow>
                       (Inr (outParams2, providerExports2), req2))))"

text \<open>
  The last step of \<open>extractParams\<close>: \<open>req.permissions\<close> is replaced by a fresh object
  unless it is an object already, and the frozen exports are assigned to its property
  named by the scheme. The module is not strict code, so the assignment to a property of a
  frozen \<open>req.permissions\<close> does nothing. When \<open>req.permissions\<close> is
  \<open>Object.prototype\<close>, the assignment changes that object, which no request holds as
  a property of its own: the request is as before.
\<close>

definition attach_exports :: "string \<Rightarrow> (string \<times> jsval) list \<Rightarrow> request \<Rightarrow> request" where
  "attach_exports schemeName providerExports req =
     (let permissions = js_read (JObj req) ''permissions'';
          req1 = (if \<not> truthy permissions \<or> typeof permissions \<noteq> ''object''
                  then AList.update ''permissions'' (JObj []) req else req)
      in case js_read (JObj req1) ''permissions'' of
           JObj perms \<Rightarrow>
             AList.update ''permissions''
               (JObj (set_property schemeName (JFrozen providerExports) perms)) req1
         | v \<Rightarrow> req1)"

definition extractParams :: "fun_table \<Rightarrow> request \<Rightarrow> (string \<times> jsval) list \<Rightarrow> jsval \<Rightarrow> string \<Rightarrow>
     (error + (string \<times> jsval) list) \<times> request" where
  "extractParams funs req overrideDefs p schemeName =
     (case resolve_params funs req overrideDefs p of
        (Inl e, req1) \<Rightarrow> (Inl e, req1)
      | (Inr (outParams, providerExports), req1) \<Rightarrow>
          (Inr outParams, attach_exports schemeName providerExports req1))"

section \<open>Matching a request against a compiled validator (matcher.js)\<close>

record result =
  hasPassed :: bool
  passedValidations :: "string list"
  failedValidations :: "(string \<times> jsval) list"
  thrownErrors :: "thrown list"

fun typeof_target :: "target \<Rightarrow> string" where
  "typeof_target TargetNull = ''object''"
| "typeof_target (TargetString s) = ''string''"
| "typeof_target (TargetArray names) = ''object''"

text \<open>
  The targets: \<open>*\<close> is replaced by the validations of the scheme, then
  \<open>filter((v, i, arr) => arr.indexOf(v) === i)\<close> keeps the first occurrence of each.
\<close>

definition expand_targets :: "string list \<Rightarrow> string list \<Rightarrow> string list" where
  "expand_targets target vals =
     uniq (foldl (\<lambda>acc v. acc @ (if v = ''*'' then vals else [v])) [] target)"

text \<open>
  The call \<open>scheme.provider[methodName](params, req)\<close>. It throws at once when the
  property is no function or the function throws before returning; otherwise it yields a
  promise that is fulfilled or rejected, together with whether it settles only later.
\<close>

datatype settled = Fulfilled jsval | Rejected thrown

definition invoke :: "fun_table \<Rightarrow> jsval \<Rightarrow> string \<Rightarrow> (string \<times> jsval) list \<Rightarrow> request \<Rightarrow>
                      thrown + bool \<times> settled" where
  "invoke funs p methodName params req =
     (case js_read p methodName of
        JFun f \<Rightarrow>
          (case as_validation (funs f) params req of
             Resolves v \<Rightarrow> Inr (False, Fulfilled v)
           | Rejects e \<Rightarrow> Inr (False, Rejected (UserThrown e))
           | ThrowsSync e \<Rightarrow> Inl (UserThrown e)
           | ResolvesLater v \<Rightarrow> Inr (True, Fulfilled v)
           | RejectsLater e \<Rightarrow> Inr (True, Rejected (UserThrown e)))
      | v \<Rightarrow> Inl (NotAFunction methodName))"

text \<open>
  The sequential loop: each call is awaited inside its own \<open>try\<close>, so a value is pushed
  to \<open>testResults\<close> or an error to \<open>thrownErrors\<close>.
\<close>

fun run_sequence :: "fun_table \<Rightarrow> jsval \<Rightarrow> (string \<times> jsval) list \<Rightarrow> request \<Rightarrow> string list \<Rightarrow>
                     jsval list \<times> thrown list \<Rightarrow> jsval list \<times> thrown list" where
  "run_sequence funs p params req [] acc = acc"
| "run_sequence funs p params req (t # ts) (testResults, thrown) =
     run_sequence funs p params req ts
       (case invoke funs p t params req of
          Inr (later, Fulfilled v) \<Rightarrow> (testResults @ [v], thrown)
        | Inr (later, Rejected e) \<Rightarrow> (testResults, thrown @ [e])
        | Inl e \<Rightarrow> (testResults, thrown @ [e]))"

text \<open>
  The parallel branch. \<open>targets.forEach\<close> starts every call outside any \<open>try\<close>: a
  call that throws at once ends the whole match with that error. Each promise is kept
  with the time at which it settles: \<open>0\<close> when it is settled as the call returns, and
  otherwise a later time, which \<open>settle\<close> gives for each validation name (it is not
  determined by the program).
\<close>

fun launch_all :: "fun_table \<Rightarrow> (string \<Rightarrow> nat) \<Rightarrow> jsval \<Rightarrow> (string \<times> jsval) list \<Rightarrow> request \<Rightarrow>
                   string list \<Rightarrow> (nat \<times> settled) list \<Rightarrow> thrown + (nat \<times> settled) list" where
  "launch_all funs settle p params req [] promises = Inr promises"
| "launch_all funs settle p params req (methodName # rest) promises =
     (case invoke funs p methodName params req of
        Inl e \<Rightarrow> Inl e
      | Inr (later, promise) \<Rightarrow>
          launch_all funs settle p params req rest
            (promises @ [(if later then Suc (settle methodName) else 0, promise)]))"

text \<open>
  \<open>Promise.all\<close> over promises given with the time at which each settles: the values
  in the order of the promises when all are fulfilled, otherwise the error of the
  rejection that settles first (the earlier promise among those of equal time, as
  \<open>Promise.all\<close> subscribes to the promises in their order).
\<close>

fun rejections :: "(nat \<times> settled) list \<Rightarrow> (nat \<times> thrown) list" where
  "rejections [] = []"
| "rejections ((t, Rejected e) # ps) = (t, e) # rejections ps"
| "rejections ((t, Fulfilled v) # ps) = rejections ps"

fun fulfilments :: "(nat \<times> settled) list \<Rightarrow> jsval list" where
  "fulfilments [] = []"
| "fulfilments ((t, Fulfilled v) # ps) = v # fulfilments ps"
| "fulfilments ((t, Rejected e) # ps) = fulfilments ps"

fun earliest :: "nat \<times> thrown \<Rightarrow> (nat \<times> thrown) list \<Rightarrow> thrown" where
  "earliest (t, e) [] = e"
| "earliest (t, e) ((t', e') # rest) =
     (if t' < t then earliest (t', e') rest else earliest (t, e) rest)"

definition promise_all :: "(nat \<times> settled) list \<Rightarrow> thrown + jsval list" where
  "promise_all promises =
     (case rejections promises of
        [] \<Rightarrow> Inr (fulfilments promises)
      | r # rs \<Rightarrow> Inl (earliest r rs))"

text \<open>
  Both branches together: the error that escapes, or \<open>testResults\<close> and
  \<open>thrownErrors\<close>. Only the parallel branch depends on \<open>settle\<close>, and only for
  promises that settle later.
\<close>

definition run_tests :: "fun_table \<Rightarrow> (string \<Rightarrow> nat) \<Rightarrow> bool \<Rightarrow> jsval \<Rightarrow> (string \<times> jsval) list \<Rightarrow>
                          request \<Rightarrow> string list \<Rightarrow> thrown + jsval list \<times> thrown list" where
  "run_tests funs settle runParallel p params req targets =
     (if runParallel then
        (case launch_all funs settle p params req targets [] of
           Inl e \<Rightarrow> Inl e
         | Inr promises \<Rightarrow>
             (case promise_all promises of
                Inr vals \<Rightarrow> Inr (vals, [])
              | Inl e \<Rightarrow> Inr ([], [e])))
      else Inr (run_sequence funs p params req targets ([], [])))"

text \<open>
  The name under which a result is reported, and \<open>targets[i]\<close> (a read past the end of
  an array gives \<open>undefined\<close>, which the template string prints).
\<close>

definition target_at :: "string list \<Rightarrow> nat \<Rightarrow> string" where
  "target_at targets i = (if i < length targets then targets ! i else ''undefined'')"

definition qualified_name :: "string \<Rightarrow> string \<Rightarrow> string \<Rightarrow> string" where
  "qualified_name namespace scheme methodName =
     (if namespace = ''global'' then [] else namespace @ '':'') @ scheme @ '':'' @ methodName"

text \<open>\<open>testResults.forEach((res, i) => ...)\<close>, from index \<open>i\<close> on.\<close>

fun push_results :: "string \<Rightarrow> string \<Rightarrow> string list \<Rightarrow> nat \<Rightarrow> jsval list \<Rightarrow> result \<Rightarrow> result" where
  "push_results namespace scheme targets i [] results = results"
| "push_results namespace scheme targets i (res # rest) results =
     (let methodName = qualified_name namespace scheme (target_at targets i) in
      push_results namespace scheme targets (Suc i) rest
        (if res = JBool True
         then results\<lparr>passedValidations := passedValidations results @ [methodName]\<rparr>
         else results\<lparr>failedValidations := failedValidations results @
                 [(methodName, if typeof res \<noteq> ''boolean'' then res else JUndefined)]\<rparr>))"

text \<open>
  The comma operator: \<open>case 'all', 'allOf':\<close> is a single label whose expression is
  \<open>('all', 'allOf')\<close>, and the value of \<open>(a, b)\<close> is \<open>b\<close>.
\<close>

definition comma :: "'a \<Rightarrow> 'a \<Rightarrow> 'a" where
  "comma a b = b"

text \<open>
  \<open>matchTrueValidator\<close> returns the error it throws or the result object, and the
  request as it leaves it. The namespace and the scheme are looked up among the own
  properties of the store and of the namespace.
\<close>

definition matchTrueValidator :: "fun_table \<Rightarrow> (string \<Rightarrow> nat) \<Rightarrow> registry \<Rightarrow> request \<Rightarrow> descriptor \<Rightarrow>
                                  (error + result) \<times> request" where
  "matchTrueValidator funs settle namespaces req validator =
     (case d_target validator of
        TargetArray target \<Rightarrow>
          (case map_of namespaces (d_namespace validator) of
             None \<Rightarrow>
               (Inl (NamespaceNotFound (d_namespace validator) (uniq (map fst namespaces))), req)
           | Some namespace \<Rightarrow>
               (case map_of namespace (d_scheme validator) of
                  None \<Rightarrow>
                    (Inl (SchemeNotFound (d_scheme validator) (d_namespace validator)
                            (uniq (map fst namespace))), req)
                | Some scheme \<Rightarrow>
                    (let targets = expand_targets target (validations scheme) in
                     case extractParams funs req (d_params validator) (provider scheme)
                            (d_scheme validator) of
                       (Inl e, req1) \<Rightarrow> (Inl e, req1)
                     | (Inr params, req1) \<Rightarrow>
                         (let runParallel = (d_parallel validator = Some True \<or>
                                             truthy (js_read (provider scheme) ''_parallel''))
                          in case run_tests funs settle runParallel (provider scheme) params req1 targets of
                               Inl e \<Rightarrow> (Inl (Propagated e), req1)
                             | Inr (testResults, thrown) \<Rightarrow>
                                 (let results = push_results (d_namespace validator)
                                        (d_scheme validator) targets 0 testResults
                                        \<lparr>hasPassed = False, passedValidations = [],
                                         failedValidations = [], thrownErrors = thrown\<rparr>
                                  in if length (thrownErrors results) > 0 then (Inr results, req1)
                                     else if d_method validator = Some (comma ''all'' ''allOf'') then
                                       (Inr (results\<lparr>hasPassed :=
                                          (length (passedValidations results) = length targets \<and>
                                           length (failedValidations results) = 0)\<rparr>), req1)
                                     else if d_method validator = Some (comma ''any'' ''anyOf'') then
                                       (Inr (results\<lparr>hasPassed :=
                                          (length (passedValidations results) > 0)\<rparr>), req1)
                                     else (Inl (InvalidMethodType (d_method validator)), req1))))))
      | t \<Rightarrow> (Inl (MalformedTarget (typeof_target t) t), req))"

text \<open>
  \<open>matcher\<close> on a value that is no object, and on a proxy made by \<open>create\<close>: the
  proxy has a \<open>compile\<close> function, exempt from the finalization check, whose result
  goes to \<open>matchTrueValidator\<close>; when \<open>target\<close> is an accessor property, the
  \<open>target\<close> of that result is what the getter returns. Plain objects without
  \<open>compile\<close> (compound and no-op validators) are not part of this development.
\<close>

datatype validator_arg = NotAnObject jsval | ValidatorProxy validator

definition matcher :: "fun_table \<Rightarrow> (string \<Rightarrow> nat) \<Rightarrow> registry \<Rightarrow> request \<Rightarrow> validator_arg \<Rightarrow>
                       (error + result) \<times> request" where
  "matcher funs settle namespaces req validator =
     (case validator of
        NotAnObject v \<Rightarrow> (Inl (NotValidatorObject (typeof v) v), req)
      | ValidatorProxy v \<Rightarrow>
          (case fst (proxy_call ''compile'' [] v) of
             Inr (RetDescriptor d) \<Rightarrow> matchTrueValidator funs settle namespaces req d
           | Inr (RetDescriptorGetter d f) \<Rightarrow>
               matchTrueValidator funs settle namespaces req (d\<lparr>d_target := as_getter (funs f)\<rparr>)
           | Inr r \<Rightarrow> (Inl (MalformedTarget ''undefined'' TargetNull), req)
           | Inl e \<Rightarrow> (Inl e, req)))"

section \<open>Example providers\<close>

text \<open>
  Functions, providers and stores on which the development is run. A validation function
  settles as given, whatever its arguments. An exporting hook adds one entry to the
  exports and changes nothing else. The lookup function reads \<open>req.query\<close>.
\<close>

definition validation_fn :: "outcome \<Rightarrow> jsfun" where
  "validation_fn r =
     \<lparr>as_validation = (\<lambda>params req. r),
      as_hook = (\<lambda>req arg exports. (None, req, arg, exports)),
      as_param = (\<lambda>req name. JUndefined),
      as_getter = TargetNull\<rparr>"

definition export_fn :: "string \<Rightarrow> jsval \<Rightarrow> jsfun" where
  "export_fn k x =
     \<lparr>as_validation = (\<lambda>params req. Resolves JUndefined),
      as_hook = (\<lambda>req arg exports. (None, req, arg, AList.update k x exports)),
      as_param = (\<lambda>req name. JUndefined),
      as_getter = TargetNull\<rparr>"

definition lookup_fn :: jsfun where
  "lookup_fn =
     \<lparr>as_validation = (\<lambda>params req. Resolves JUndefined),
      as_hook = (\<lambda>req arg exports. (None, req, arg, exports)),
      as_param = (\<lambda>req name. js_get (js_get (JObj req) ''query'') name),
      as_getter = TargetNull\<rparr>"

definition getter_fn :: "target \<Rightarrow> jsfun" where
  "getter_fn t =
     \<lparr>as_validation = (\<lambda>params req. Resolves JUndefined),
      as_hook = (\<lambda>req arg exports. (None, req, arg, exports)),
      as_param = (\<lambda>req name. JUndefined),
      as_getter = t\<rparr>"

definition ex_funs :: fun_table where
  "ex_funs n =
     (if n = 0 then validation_fn (Resolves (JBool True))
      else if n = 1 then validation_fn (Resolves (JObj [(''code'', JStr ''bad'')]))
      else if n = 2 then validation_fn (Rejects (JStr ''E1''))
      else if n = 3 then validation_fn (Rejects (JStr ''E2''))
      else if n = 4 then export_fn ''who'' (JStr ''first'')
      else if n = 5 then export_fn ''who'' (JStr ''second'')
      else if n = 7 then validation_fn (RejectsLater (JStr ''E1''))
      else if n = 8 then validation_fn (RejectsLater (JStr ''E2''))
      else if n = 9 then getter_fn (TargetArray [''C''])
      else lookup_fn)"

text \<open>
  A provider whose validations \<open>A\<close> passes, \<open>B\<close> fails with an explanation, and
  \<open>C\<close> and \<open>D\<close> reject; it is registered as \<open>user\<close> in the global namespace.
\<close>

definition ex_provider :: jsval where
  "ex_provider = JObj [(''A'', JFun 0), (''B'', JFun 1), (''C'', JFun 2), (''D'', JFun 3)]"

definition ex_registry :: registry where
  "ex_registry = run_calls [Register ex_provider ''user'' JUndefined]"

text \<open>
  A provider whose validations \<open>C\<close> and \<open>D\<close> wait for something outside the
  program and then reject; it is registered as \<open>audit\<close> in the global namespace.
\<close>

definition ex_waiting :: jsval where
  "ex_waiting = JObj [(''C'', JFun 7), (''D'', JFun 8)]"

definition ex_waiting_registry :: registry where
  "ex_waiting_registry = run_calls [Register ex_waiting ''audit'' JUndefined]"

text \<open>
  Two providers with a \<open>before\<close> hook that exports \<open>who\<close>, registered under the
  same name \<open>user\<close> in the namespaces \<open>ns1\<close> and \<open>ns2\<close>.
\<close>

definition ex_first :: jsval where
  "ex_first = JObj [(''before'', JFun 4), (''ok'', JFun 0)]"

definition ex_second :: jsval where
  "ex_second = JObj [(''before'', JFun 5), (''ok'', JFun 0)]"


text \<open>The provider of the repository's test of reserved names.\<close>

definition ex_reserved :: jsval where
  "ex_reserved =
     JObj [(''before'', JFun 0), (''after'', JFun 0), (''params'', JFun 0), (''error'', JFun 0),
           (''notReserved'', JFun 0), (''potet'', JFun 0)]"

text \<open>A request with a cookie map, a query and a nested field.\<close>

definition ex_request :: request where
  "ex_request =
     [(''param'', JFun 6),
      (''query'', JObj [(''targetUserID'', JStr ''42'')]),
      (''cookies'', JObj [(''loggedUser'', JStr ''ann'')]),
      (''auth'', JObj [(''user'', JObj [(''id'', JNum 7)])]),
      (''ip'', JStr ''10.0.0.1'')]"

text \<open>
  Settling times: all promises at once, the promise of \<open>C\<close> before the others, and
  the promise of \<open>C\<close> after the others.
\<close>

definition settle_together :: "string \<Rightarrow> nat" where
  "settle_together name = 0"

definition settle_C_first :: "string \<Rightarrow> nat" where
  "settle_C_first name = (if name = ''C'' then 1 else 2)"

definition settle_C_last :: "string \<Rightarrow> nat" where
  "settle_C_last name = (if name = ''C'' then 2 else 1)"

text \<open>The state of a validator on which no terminal method has run.\<close>

definition open_state :: "validator \<Rightarrow> bool" where
  "open_state v =
     (\<not> v_finalized v \<and> v_method v = None \<and> v_target v = TargetNull \<and> v_target_getter v = None)"

section \<open>Evaluating the examples\<close>

lemma ordered_keys_plain: "\<forall>k \<in> set ks. array_index k = None \<Longrightarrow> ordered_keys ks = ks"
  by (simp add: ordered_keys_def filter_id_conv filter_empty_conv)

lemma array_index_letter: "k \<noteq> [] \<Longrightarrow> digit_value (hd k) = None \<Longrightarrow> array_index k = None"
  by (cases k) (simp_all add: array_index_def)

lemmas key_defs = object_keys_def ordered_keys_plain array_index_letter digit_value_def

lemmas store_defs =
  run_calls_def register_def initial_namespaces_def extract_validations_def reserved_names_def
  inherited_def native_names_def key_defs

lemmas builder_defs =
  proxy_calls_def proxy_call_def function_properties_def validator_methods_def native_names_def
  create_def call_method_def call_native_def set_parameter_def set_property_def assign_target_def
  all_method_def any_method_def allOf_def anyOf_def names_method_def parallel_def compile_def

lemmas matcher_defs =
  matcher_def matchTrueValidator_def expand_targets_def extractParams_def resolve_params_def
  attach_exports_def merge_defs_def run_hook_def run_tests_def invoke_def promise_all_def
  comma_def qualified_name_def target_at_def set_property_def inherited_def native_names_def
  key_defs

lemmas example_defs =
  ex_funs_def validation_fn_def export_fn_def lookup_fn_def getter_fn_def ex_provider_def
  ex_first_def ex_second_def ex_waiting_def settle_together_def settle_C_first_def
  settle_C_last_def

lemma ex_registry_eq:
  "ex_registry =
     [(''global'',
       [(''user'', \<lparr>e_name = ''user'', validations = [''A'', ''B'', ''C'', ''D''],
                    provider = ex_provider\<rparr>)])]"
  by (simp add: ex_registry_def ex_provider_def store_defs)

lemma ex_waiting_registry_eq:
  "ex_waiting_registry =
     [(''global'',
       [(''audit'', \<lparr>e_name = ''audit'', validations = [''C'', ''D''],
                     provider = ex_waiting\<rparr>)])]"
  by (simp add: ex_waiting_registry_def ex_waiting_def store_defs)


section \<open>The combinators of a simple validator\<close>

text \<open>
  C1. A validator whose method is \<open>all\<close> or \<open>any\<close> is never given a verdict. The
  labels \<open>case 'all', 'allOf'\<close> and \<open>case 'any', 'anyOf'\<close> match \<open>allOf\<close> and
  \<open>anyOf\<close> only, so with the method \<open>all\<close> or \<open>any\<close>, an array target and no
  thrown error the match ends in the invalid-method error. The validators that \<open>all()\<close>
  and \<open>any()\<close> build do not get that far: their target is the string \<open>*\<close>, which the
  first check of \<open>matchTrueValidator\<close> rejects as malformed. The provider is
  \<open>ex_provider\<close>, whose validation \<open>A\<close> returns \<open>true\<close>.
\<close>

theorem all_any_never_matched:
  "fst (matchTrueValidator ex_funs settle ex_registry req
          \<lparr>d_namespace = ''global'', d_scheme = ''user'', d_method = Some ''all'',
           d_params = [], d_target = TargetArray [''A''], d_parallel = None\<rparr>)
     = Inl (InvalidMethodType (Some ''all'')) \<and>
   fst (matchTrueValidator ex_funs settle ex_registry req
          \<lparr>d_namespace = ''global'', d_scheme = ''user'', d_method = Some ''any'',
           d_params = [], d_target = TargetArray [''A''], d_parallel = None\<rparr>)
     = Inl (InvalidMethodType (Some ''any'')) \<and>
   fst (matcher ex_funs settle ex_registry req
          (ValidatorProxy (proxy_calls [(''all'', [])] (create ''user'' ''global''))))
     = Inl (MalformedTarget ''string'' (TargetString ''*'')) \<and>
   fst (matcher ex_funs settle ex_registry req
          (ValidatorProxy (proxy_calls [(''any'', [])] (create ''user'' ''global''))))
     = Inl (MalformedTarget ''string'' (TargetString ''*''))"
  by (simp add: ex_registry_eq builder_defs matcher_defs example_defs)

section \<open>Rejections in the parallel branch\<close>

text \<open>
  C2. With \<open>A\<close> returning \<open>true\<close> and \<open>C\<close> rejecting, the parallel run of
  \<open>allOf('A', 'C')\<close> records the rejection and nothing else: the value of \<open>A\<close> is
  in neither list. The sequential run of the same validator reports \<open>user:A\<close> as
  passed. With \<open>C\<close> and \<open>D\<close> both rejecting, the parallel run records one of the two
  rejections only.
\<close>

theorem parallel_rejection_drops_outcomes:
  "fst (matcher ex_funs settle ex_registry req
          (ValidatorProxy (proxy_calls [(''parallel'', []), (''allOf'', [JStr ''A'', JStr ''C''])]
                             (create ''user'' ''global''))))
     = Inr \<lparr>hasPassed = False, passedValidations = [], failedValidations = [],
            thrownErrors = [UserThrown (JStr ''E1'')]\<rparr> \<and>
   fst (matcher ex_funs settle ex_registry req
          (ValidatorProxy (proxy_calls [(''allOf'', [JStr ''A'', JStr ''C''])]
                             (create ''user'' ''global''))))
     = Inr \<lparr>hasPassed = False, passedValidations = [''user:A''], failedValidations = [],
            thrownErrors = [UserThrown (JStr ''E1'')]\<rparr> \<and>
   fst (matcher ex_funs settle_together ex_registry req
          (ValidatorProxy (proxy_calls [(''parallel'', []), (''allOf'', [JStr ''C'', JStr ''D''])]
                             (create ''user'' ''global''))))
     = Inr \<lparr>hasPassed = False, passedValidations = [], failedValidations = [],
            thrownErrors = [UserThrown (JStr ''E1'')]\<rparr>"
  by (simp add: ex_registry_eq builder_defs matcher_defs example_defs)

section \<open>The name a result is reported under\<close>

text \<open>
  C3. In the sequential run of \<open>allOf('C', 'A')\<close>, where \<open>C\<close> rejects and \<open>A\<close>
  returns \<open>true\<close>, the one collected value is that of \<open>A\<close>, and it is reported under
  the name \<open>user:C\<close>: a rejected call pushes nothing to \<open>testResults\<close>, so the values
  after it move down by one index while \<open>targets\<close> stays as it is. Likewise the
  explanation that \<open>B\<close> returns is reported under \<open>user:C\<close> for \<open>anyOf('C', 'B')\<close>.
\<close>

theorem sequential_result_misattributed:
  "fst (matcher ex_funs settle ex_registry req
          (ValidatorProxy (proxy_calls [(''allOf'', [JStr ''C'', JStr ''A''])]
                             (create ''user'' ''global''))))
     = Inr \<lparr>hasPassed = False, passedValidations = [''user:C''], failedValidations = [],
            thrownErrors = [UserThrown (JStr ''E1'')]\<rparr> \<and>
   fst (matcher ex_funs settle ex_registry req
          (ValidatorProxy (proxy_calls [(''anyOf'', [JStr ''C'', JStr ''B''])]
                             (create ''user'' ''global''))))
     = Inr \<lparr>hasPassed = False, passedValidations = [],
            failedValidations = [(''user:C'', JObj [(''code'', JStr ''bad'')])],
            thrownErrors = [UserThrown (JStr ''E1'')]\<rparr>"
  by (simp add: ex_registry_eq builder_defs matcher_defs example_defs)

section \<open>Repeated evaluation\<close>

text \<open>
  C9. The validations \<open>C\<close> and \<open>D\<close> of the provider \<open>audit\<close> each wait for
  something outside the program and then reject, with \<open>E1\<close> and with \<open>E2\<close>. The
  parallel run of \<open>allOf('C', 'D')\<close> records the rejection that settles first. Two
  evaluations of the same validator on the same request and the same functions, which
  differ only in which of the two waits ends first, return different \<open>thrownErrors\<close>.
  For the validations \<open>C\<close> and \<open>D\<close> of the provider \<open>user\<close>, whose promises are
  rejected as the calls return, the rejection recorded is that of \<open>C\<close> in either case.
\<close>

theorem parallel_outcome_depends_on_order:
  "fst (matcher ex_funs settle_C_first ex_waiting_registry ex_request
          (ValidatorProxy (proxy_calls [(''parallel'', []), (''allOf'', [JStr ''C'', JStr ''D''])]
                             (create ''audit'' ''global''))))
     = Inr \<lparr>hasPassed = False, passedValidations = [], failedValidations = [],
            thrownErrors = [UserThrown (JStr ''E1'')]\<rparr> \<and>
   fst (matcher ex_funs settle_C_last ex_waiting_registry ex_request
          (ValidatorProxy (proxy_calls [(''parallel'', []), (''allOf'', [JStr ''C'', JStr ''D''])]
                             (create ''audit'' ''global''))))
     = Inr \<lparr>hasPassed = False, passedValidations = [], failedValidations = [],
            thrownErrors = [UserThrown (JStr ''E2'')]\<rparr> \<and>
   fst (matcher ex_funs settle_C_last ex_registry ex_request
          (ValidatorProxy (proxy_calls [(''parallel'', []), (''allOf'', [JStr ''C'', JStr ''D''])]
                             (create ''user'' ''global''))))
     = Inr \<lparr>hasPassed = False, passedValidations = [], failedValidations = [],
            thrownErrors = [UserThrown (JStr ''E1'')]\<rparr>"
  by (simp add: ex_waiting_registry_eq ex_registry_eq builder_defs matcher_defs example_defs ex_request_def)

section \<open>The validation names of a registered provider\<close>

lemma set_uniq: "set (uniq xs) = set xs"
proof (induction xs rule: uniq.induct)
  case 1 show ?case by simp
next
  case (2 x xs)
  then show ?case by auto
qed

lemma set_update_subset: "set (AList.update k v al) \<subseteq> insert (k, v) (set al)"
  by (induction al) auto

lemma set_delete_subset: "set (AList.delete k al) \<subseteq> set al"
  by (induction al) auto

lemma entry_ok_extract: "entry_ok \<lparr>e_name = name, validations = extract_validations p, provider = p\<rparr>"
  by (simp add: entry_ok_def extract_validations_def)

lemma registry_ok_update:
  assumes "registry_ok namespaces" "\<forall>e \<in> snd ` set ns. entry_ok e"
  shows "registry_ok (AList.update nsname ns namespaces)"
  using assms set_update_subset[of nsname ns namespaces]
  unfolding registry_ok_def by fastforce

lemma registry_ok_lookup:
  assumes "registry_ok namespaces" "map_of namespaces nsname = Some ns"
  shows "\<forall>e \<in> snd ` set ns. entry_ok e"
  using assms map_of_SomeD[of namespaces nsname ns] unfolding registry_ok_def by force

lemma register_ok:
  assumes ok: "registry_ok namespaces"
  shows "registry_ok (snd (register p name namespace namespaces))"
proof -
  define nsname where "nsname = default_namespace namespace"
  define namespaces1 where "namespaces1 = (case map_of namespaces nsname of
                             Some ns \<Rightarrow> namespaces
                           | None \<Rightarrow> AList.update nsname [] namespaces)"
  define ns where "ns = (case map_of namespaces1 nsname of Some ns \<Rightarrow> ns | None \<Rightarrow> [])"
  have ok1: "registry_ok namespaces1"
    unfolding namespaces1_def using ok registry_ok_update[OF ok, of "[]" nsname]
    by (simp split: option.splits)
  have okns: "\<forall>e \<in> snd ` set ns. entry_ok e"
  proof (cases "map_of namespaces1 nsname")
    case None
    then show ?thesis by (simp add: ns_def)
  next
    case (Some ns')
    then show ?thesis using registry_ok_lookup[OF ok1 Some] by (simp add: ns_def)
  qed
  have "\<forall>e \<in> snd ` set (AList.update name
           \<lparr>e_name = name, validations = extract_validations p, provider = p\<rparr> ns). entry_ok e"
    using okns entry_ok_extract[of name p]
      set_update_subset[of name "\<lparr>e_name = name, validations = extract_validations p, provider = p\<rparr>" ns]
    by fastforce
  then have ok2: "registry_ok (AList.update nsname (AList.update name
           \<lparr>e_name = name, validations = extract_validations p, provider = p\<rparr> ns) namespaces1)"
    using registry_ok_update[OF ok1] by blast
  show ?thesis
    using ok ok1 ok2
    unfolding register_def Let_def nsname_def[symmetric] namespaces1_def[symmetric] ns_def[symmetric]
    by (simp split: option.splits)
qed

lemma unregister_ok:
  assumes ok: "registry_ok namespaces"
  shows "registry_ok (snd (unregister name namespace namespaces))"
proof (cases "map_of namespaces (default_namespace namespace)")
  case None
  then show ?thesis using ok by (simp add: unregister_def)
next
  case (Some ns)
  have "\<forall>e \<in> snd ` set ns. entry_ok e"
    using registry_ok_lookup[OF ok Some] .
  then have "\<forall>e \<in> snd ` set (AList.delete name ns). entry_ok e"
    using set_delete_subset[of name ns] by fastforce
  then show ?thesis
    using Some registry_ok_update[OF ok] by (simp add: unregister_def)
qed

lemma apply_call_ok: "registry_ok namespaces \<Longrightarrow> registry_ok (apply_call c namespaces)"
  by (cases c) (simp_all add: register_ok unregister_ok)

lemma foldl_calls_ok:
  "registry_ok namespaces \<Longrightarrow> registry_ok (foldl (\<lambda>namespaces c. apply_call c namespaces) namespaces calls)"
  by (induction calls arbitrary: namespaces) (simp_all add: apply_call_ok)

lemma run_calls_ok: "registry_ok (run_calls calls)"
  unfolding run_calls_def
  by (rule foldl_calls_ok) (simp add: registry_ok_def initial_namespaces_def)

lemma lookup_entry_ok:
  assumes "registry_ok namespaces" "lookup_entry namespaces nsname name = Some e"
  shows "entry_ok e"
proof -
  from assms(2) obtain ns where ns: "map_of namespaces nsname = Some ns" and e: "map_of ns name = Some e"
    by (auto simp: lookup_entry_def split: option.splits)
  from e have "e \<in> snd ` set ns" using map_of_SomeD[of ns name e] by force
  then show ?thesis using registry_ok_lookup[OF assms(1) ns] by blast
qed

lemma set_ordered_keys: "set (ordered_keys ks) = set ks"
  by (auto simp: ordered_keys_def)

lemma set_object_keys: "fields_of p = Some fs \<Longrightarrow> set (object_keys p) = fst ` set fs"
  by (simp add: object_keys_def set_ordered_keys set_uniq)

lemma callable_is_key:
  "typeof (case map_of fs k of Some v \<Rightarrow> v | None \<Rightarrow> JUndefined) = ''function'' \<Longrightarrow>
   k \<in> fst ` set fs"
  by (cases "map_of fs k") (auto dest: map_of_SomeD intro: rev_image_eqI)

lemma callable_keys:
  "typeof p = ''object'' \<Longrightarrow> truthy p \<Longrightarrow>
   set (extract_validations p) = {k. typeof (js_get p k) = ''function'' \<and> k \<notin> set reserved_names}"
proof (cases p)
  case (JObj fs)
  then show ?thesis
    using callable_is_key [of fs] set_object_keys [of p fs]
    by (auto simp: extract_validations_def)
next
  case (JFrozen fs)
  then show ?thesis
    using callable_is_key [of fs] set_object_keys [of p fs]
    by (auto simp: extract_validations_def)
next
  case JObjectProto
  then show ?thesis
    by (simp add: extract_validations_def object_keys_def ordered_keys_def)
qed simp_all

lemma register_lookup:
  assumes "register p name namespace namespaces = (None, namespaces')"
  shows "lookup_entry namespaces' (default_namespace namespace) name =
           Some \<lparr>e_name = name, validations = extract_validations p, provider = p\<rparr>"
  using assms
  by (auto simp: register_def Let_def lookup_entry_def AList.update_conv' split: if_splits option.splits)

text \<open>
  C8. When \<open>register\<close> accepts a provider, the entry stored under the namespace and the
  name holds as validations the keys of the provider that are functions and are none of
  \<open>before\<close>, \<open>after\<close>, \<open>params\<close>, \<open>error\<close>, in the order of the keys; as a
  set, exactly the callable members with a name that is not reserved. Hence in the store
  reached by any sequence of \<open>register\<close> and \<open>unregister\<close> calls, every validation
  name of every entry is callable on its provider and is not reserved.
\<close>

theorem register_validations:
  "(register p name namespace namespaces = (None, namespaces') \<longrightarrow>
      (\<exists>e. lookup_entry namespaces' (default_namespace namespace) name = Some e \<and>
           provider e = p \<and>
           validations e = filter (\<lambda>k. k \<notin> set reserved_names)
                             (filter (\<lambda>k. typeof (js_get p k) = ''function'') (object_keys p)) \<and>
           set (validations e) =
             {k. typeof (js_get p k) = ''function'' \<and>
                 k \<notin> {''before'', ''after'', ''params'', ''error''}})) \<and>
   (lookup_entry (run_calls calls) nsname n = Some e' \<longrightarrow>
      (\<forall>k \<in> set (validations e').
          k \<notin> {''before'', ''after'', ''params'', ''error''} \<and>
          typeof (js_get (provider e') k) = ''function''))"
proof (intro conjI impI)
  assume r: "register p name namespace namespaces = (None, namespaces')"
  have obj: "typeof p = ''object''" "truthy p"
    using r by (auto simp: register_def split: if_splits)
  show "\<exists>e. lookup_entry namespaces' (default_namespace namespace) name = Some e \<and>
           provider e = p \<and>
           validations e = filter (\<lambda>k. k \<notin> set reserved_names)
                             (filter (\<lambda>k. typeof (js_get p k) = ''function'') (object_keys p)) \<and>
           set (validations e) =
             {k. typeof (js_get p k) = ''function'' \<and>
                 k \<notin> {''before'', ''after'', ''params'', ''error''}}"
    using register_lookup[OF r] callable_keys[OF obj]
    by (simp add: extract_validations_def reserved_names_def)
next
  assume "lookup_entry (run_calls calls) nsname n = Some e'"
  then have "entry_ok e'" using lookup_entry_ok[OF run_calls_ok] by blast
  then show "\<forall>k \<in> set (validations e').
          k \<notin> {''before'', ''after'', ''params'', ''error''} \<and>
          typeof (js_get (provider e') k) = ''function''"
    by (simp add: entry_ok_def reserved_names_def)
qed

theorem register_validations_witness:
  "register ex_reserved ''mostlyReservedFuncs'' JUndefined initial_namespaces =
     (None, run_calls [Register ex_reserved ''mostlyReservedFuncs'' JUndefined]) \<and>
   lookup_entry (run_calls [Register ex_reserved ''mostlyReservedFuncs'' JUndefined])
       ''global'' ''mostlyReservedFuncs'' =
     Some \<lparr>e_name = ''mostlyReservedFuncs'', validations = [''notReserved'', ''potet''],
           provider = ex_reserved\<rparr> \<and>
   set [''notReserved'', ''potet''] =
     {k. typeof (js_get ex_reserved k) = ''function'' \<and>
         k \<notin> {''before'', ''after'', ''params'', ''error''}} \<and>
   typeof (js_get ex_reserved ''notReserved'') = ''function'' \<and>
   typeof (js_get ex_reserved ''potet'') = ''function''"
proof -
  define e where
    "e = \<lparr>e_name = ''mostlyReservedFuncs'', validations = [''notReserved'', ''potet''],
          provider = ex_reserved\<rparr>"
  have r: "register ex_reserved ''mostlyReservedFuncs'' JUndefined initial_namespaces =
             (None, run_calls [Register ex_reserved ''mostlyReservedFuncs'' JUndefined])"
    by (simp add: ex_reserved_def store_defs)
  have l: "lookup_entry (run_calls [Register ex_reserved ''mostlyReservedFuncs'' JUndefined])
             ''global'' ''mostlyReservedFuncs'' = Some e"
    by (simp add: e_def ex_reserved_def lookup_entry_def store_defs)
  note w = register_validations
      [of ex_reserved "''mostlyReservedFuncs''" JUndefined initial_namespaces
          "run_calls [Register ex_reserved ''mostlyReservedFuncs'' JUndefined]"
          "[Register ex_reserved ''mostlyReservedFuncs'' JUndefined]" "''global''"
          "''mostlyReservedFuncs''" e]
  from w r obtain e0 where
      e0: "lookup_entry (run_calls [Register ex_reserved ''mostlyReservedFuncs'' JUndefined])
             (default_namespace JUndefined) ''mostlyReservedFuncs'' = Some e0"
      and s0: "set (validations e0) =
             {k. typeof (js_get ex_reserved k) = ''function'' \<and>
                 k \<notin> {''before'', ''after'', ''params'', ''error''}}"
    by blast
  from e0 l have "e0 = e" by simp
  with s0 have a: "set [''notReserved'', ''potet''] =
             {k. typeof (js_get ex_reserved k) = ''function'' \<and>
                 k \<notin> {''before'', ''after'', ''params'', ''error''}}"
    by (simp add: e_def)
  from w l have b: "\<forall>k \<in> set (validations e). typeof (js_get (provider e) k) = ''function''"
    by blast
  from b have c1: "typeof (js_get ex_reserved ''notReserved'') = ''function''"
    by (simp add: e_def)
  from b have c2: "typeof (js_get ex_reserved ''potet'') = ''function''"
    by (simp add: e_def)
  from l have l': "lookup_entry (run_calls [Register ex_reserved ''mostlyReservedFuncs'' JUndefined])
       ''global'' ''mostlyReservedFuncs'' =
     Some \<lparr>e_name = ''mostlyReservedFuncs'', validations = [''notReserved'', ''potet''],
           provider = ex_reserved\<rparr>"
    by (simp add: e_def)
  show ?thesis
    by (intro conjI) (fact r, fact l', fact a, fact c1, fact c2)
qed

section \<open>The builder\<close>

lemma proxy_call_compile:
  "v_target_getter v = None \<Longrightarrow>
   proxy_call ''compile'' args v = (Inr (RetDescriptor (compile v)), v)"
  by (simp add: proxy_call_def function_properties_def validator_methods_def call_method_def)

lemma set_parameter_open: "open_state v \<Longrightarrow> open_state (snd (set_parameter property args v))"
  by (cases "hd args") (simp_all add: set_parameter_def open_state_def)

lemma call_method_open:
  "open_state v \<Longrightarrow> property \<notin> set terminal_methods \<Longrightarrow>
   open_state (snd (call_method property args v))"
  by (simp add: call_method_def terminal_methods_def open_state_def parallel_def)

lemma call_native_open:
  "open_state v \<Longrightarrow> property \<notin> set accessor_definers \<Longrightarrow>
   open_state (snd (call_native property args v))"
  by (simp add: call_native_def accessor_definers_def)

lemma proxy_call_open:
  "open_state v \<Longrightarrow> property \<notin> set terminal_methods \<Longrightarrow>
   property \<notin> set accessor_definers \<Longrightarrow>
   open_state (snd (proxy_call property args v))"
  by (simp add: proxy_call_def set_parameter_open call_method_open call_native_open)

lemma proxy_calls_open:
  "open_state v \<Longrightarrow>
   \<forall>c \<in> set calls. fst c \<notin> set terminal_methods \<and> fst c \<notin> set accessor_definers \<Longrightarrow>
   open_state (proxy_calls calls v)"
  unfolding proxy_calls_def
  by (induction calls arbitrary: v) (simp_all add: proxy_call_open)

text \<open>
  C4. \<open>parallel()\<close> is a method of the class, so the proxy wraps it with the
  finalization check like every method but \<open>compile\<close> and \<open>inspect\<close>. On a
  finalized validator it throws the already-finalized error and changes nothing; on an
  open one it sets \<open>execParallel\<close> to \<open>true\<close>, changes nothing else and returns the
  proxy.
\<close>

theorem parallel_only_when_open:
  "proxy_call ''parallel'' args v =
     (if v_finalized v then (Inl (AlreadyFinalizedMethod ''parallel''), v)
      else (Inr RetProxy, v\<lparr>v_execParallel := Some True\<rparr>))"
  by (simp add: proxy_call_def function_properties_def validator_methods_def call_method_def
        parallel_def)

theorem parallel_after_all_counterexample:
  "proxy_call ''parallel'' [] (proxy_calls [(''all'', [])] (create ''user'' ''global'')) =
     (Inl (AlreadyFinalizedMethod ''parallel''),
      proxy_calls [(''all'', [])] (create ''user'' ''global''))"
  by (simp add: builder_defs)

text \<open>
  C5. On a validator that is not finalized, take the call of a property that is not
  function-valued on the validator (neither a method of the class nor a function
  inherited from \<open>Object.prototype\<close>), with one argument. It assigns the argument to
  that property of \<open>params\<close> and returns the proxy exactly when the argument is a string
  that begins with \<open>?\<close>, \<open>$\<close> or \<open>req.\<close>. A string with another beginning throws
  the invalid-string error, which names the parameter. Every other value, an object with a
  \<open>value\<close> field included, throws the error that names the parameter, the type of the
  value and the value. A call that throws leaves the validator as it was.
\<close>

theorem set_parameter_strings_only:
  assumes "property \<notin> set function_properties" and "\<not> v_finalized v"
  shows "proxy_call property [a] v =
           (case a of
              JStr s \<Rightarrow>
                (if valid_prefix s
                 then (Inr RetProxy, v\<lparr>v_params := set_property property (JStr s) (v_params v)\<rparr>)
                 else (Inl (InvalidParamString property), v))
            | _ \<Rightarrow> (Inl (InvalidParamValue property (typeof a) a), v)) \<and>
         ((\<exists>v'. proxy_call property [a] v = (Inr RetProxy, v')) \<longleftrightarrow>
          (\<exists>s. a = JStr s \<and> valid_prefix s))"
  using assms
  by (cases a) (simp_all add: proxy_call_def set_parameter_def valid_prefix_def)

theorem set_parameter_strings_only_witness:
  "''target'' \<notin> set function_properties \<and> \<not> v_finalized (create ''moderation'' ''global'') \<and>
   proxy_call ''target'' [JStr ''?banTargets''] (create ''moderation'' ''global'') =
     (Inr RetProxy, (create ''moderation'' ''global'')\<lparr>v_params := [(''target'', JStr ''?banTargets'')]\<rparr>) \<and>
   proxy_call ''target'' [JStr ''banTargets''] (create ''moderation'' ''global'') =
     (Inl (InvalidParamString ''target''), create ''moderation'' ''global'') \<and>
   proxy_call ''target'' [JNum 5] (create ''moderation'' ''global'') =
     (Inl (InvalidParamValue ''target'' ''number'' (JNum 5)), create ''moderation'' ''global'')"
proof -
  have m: "''target'' \<notin> set function_properties"
    by (simp add: function_properties_def validator_methods_def native_names_def)
  have f: "\<not> v_finalized (create ''moderation'' ''global'')"
    by (simp add: create_def)
  show ?thesis
    using m f
      set_parameter_strings_only [OF m f, of "JStr ''?banTargets''"]
      set_parameter_strings_only [OF m f, of "JStr ''banTargets''"]
      set_parameter_strings_only [OF m f, of "JNum 5"]
    by (simp add: valid_prefix_def startsWith_def create_def set_property_def)
qed

theorem literal_wrapper_rejected_counterexample:
  "proxy_call ''target'' [JObj [(''value'', JNum 5)]] (create ''moderation'' ''global'') =
     (Inl (InvalidParamValue ''target'' ''object'' (JObj [(''value'', JNum 5)])),
      create ''moderation'' ''global'')"
  by (simp add: builder_defs)

text \<open>
  C10. Take a validator made by \<open>create\<close> and any chain of calls on its proxy none of
  which is \<open>all\<close>, \<open>any\<close>, \<open>allOf\<close> or \<open>anyOf\<close>, nor one of the inherited
  functions \<open>__defineGetter__\<close> and \<open>__defineSetter__\<close>. Then \<open>compile()\<close> does not
  throw, the descriptor it returns has \<open>method\<close> and \<open>target\<close> both \<open>null\<close>, and
  matching any request against the validator, with any store, throws the malformed-validator
  error for the \<open>target\<close> property and leaves the request untouched.
\<close>

theorem unfinished_validator_is_malformed:
  assumes "\<forall>c \<in> set calls. fst c \<notin> set terminal_methods \<and> fst c \<notin> set accessor_definers"
    and "v = proxy_calls calls (create schemeName schemeNamespace)"
  shows "proxy_call ''compile'' [] v = (Inr (RetDescriptor (compile v)), v) \<and>
         d_method (compile v) = None \<and> d_target (compile v) = TargetNull \<and>
         matcher funs settle namespaces req (ValidatorProxy v) =
           (Inl (MalformedTarget ''object'' TargetNull), req)"
proof -
  have "open_state (create schemeName schemeNamespace)"
    by (simp add: open_state_def create_def)
  then have o: "open_state v"
    using assms proxy_calls_open by blast
  then have g: "v_target_getter v = None"
    by (simp add: open_state_def)
  from o have "d_method (compile v) = None" and "d_target (compile v) = TargetNull"
    by (simp_all add: open_state_def compile_def)
  then show ?thesis
    by (simp add: proxy_call_compile [OF g] matcher_def matchTrueValidator_def)
qed

theorem unfinished_validator_is_malformed_witness:
  "''self'' \<notin> set terminal_methods \<and> ''self'' \<notin> set accessor_definers \<and>
   ''parallel'' \<notin> set terminal_methods \<and> ''parallel'' \<notin> set accessor_definers \<and>
   ''toString'' \<notin> set terminal_methods \<and> ''toString'' \<notin> set accessor_definers \<and>
   proxy_calls [(''self'', [JStr ''req.auth.user'']), (''parallel'', []), (''toString'', [])]
       (create ''user'' ''global'') =
     \<lparr>v_name = ''user'', v_namespace = ''global'', v_params = [(''self'', JStr ''req.auth.user'')],
      v_finalized = False, v_method = None, v_target = TargetNull, v_execParallel = Some True,
      v_target_getter = None\<rparr> \<and>
   d_method (compile (proxy_calls
       [(''self'', [JStr ''req.auth.user'']), (''parallel'', []), (''toString'', [])]
       (create ''user'' ''global''))) = None \<and>
   matcher ex_funs settle_together ex_registry ex_request
     (ValidatorProxy (proxy_calls
        [(''self'', [JStr ''req.auth.user'']), (''parallel'', []), (''toString'', [])]
        (create ''user'' ''global''))) =
     (Inl (MalformedTarget ''object'' TargetNull), ex_request)"
proof -
  have h: "\<forall>c \<in> set [(''self'', [JStr ''req.auth.user'']), (''parallel'', []), (''toString'', [])].
             fst c \<notin> set terminal_methods \<and> fst c \<notin> set accessor_definers"
    by (simp add: terminal_methods_def accessor_definers_def)
  have s: "proxy_calls [(''self'', [JStr ''req.auth.user'']), (''parallel'', []), (''toString'', [])]
       (create ''user'' ''global'') =
     \<lparr>v_name = ''user'', v_namespace = ''global'', v_params = [(''self'', JStr ''req.auth.user'')],
      v_finalized = False, v_method = None, v_target = TargetNull, v_execParallel = Some True,
      v_target_getter = None\<rparr>"
    by (simp add: builder_defs startsWith_def)
  have t: "''self'' \<notin> set terminal_methods \<and> ''self'' \<notin> set accessor_definers \<and>
           ''parallel'' \<notin> set terminal_methods \<and> ''parallel'' \<notin> set accessor_definers \<and>
           ''toString'' \<notin> set terminal_methods \<and> ''toString'' \<notin> set accessor_definers"
    by (simp add: terminal_methods_def accessor_definers_def)
  show ?thesis
    using t s unfinished_validator_is_malformed [OF h refl, of "''user''" "''global''"
                 ex_funs settle_together ex_registry ex_request]
    by simp
qed

theorem target_getter_counterexample:
  "proxy_calls [(''__defineGetter__'', [JStr ''target'', JFun 9])] (create ''user'' ''global'') =
     (create ''user'' ''global'')\<lparr>v_target_getter := Some 9\<rparr> \<and>
   fst (proxy_call ''compile'' []
          (proxy_calls [(''__defineGetter__'', [JStr ''target'', JFun 9])]
             (create ''user'' ''global''))) =
     Inr (RetDescriptorGetter (compile (create ''user'' ''global'')) 9) \<and>
   as_getter (ex_funs 9) = TargetArray [''C''] \<and>
   fst (matcher ex_funs settle_together ex_registry ex_request
          (ValidatorProxy (proxy_calls [(''__defineGetter__'', [JStr ''target'', JFun 9])]
                             (create ''user'' ''global'')))) =
     Inr \<lparr>hasPassed = False, passedValidations = [], failedValidations = [],
          thrownErrors = [UserThrown (JStr ''E1'')]\<rparr>"
  by (simp add: ex_registry_eq builder_defs matcher_defs example_defs ex_request_def)

section \<open>Resolving one parameter definition\<close>

lemma js_split_req: "js_split CHR ''.'' (''req.'' @ path) = ''req'' # js_split CHR ''.'' path"
  by simp

lemma traverse_undefined: "foldl traverse_step JUndefined ks = JUndefined"
  by (induction ks) (simp_all add: traverse_step_def)

lemma js_read_absent: "\<not> js_in k v \<Longrightarrow> js_read v k = JUndefined"
  by (cases v) (simp_all add: inherited_def)

lemma traverse_step_walk:
  "traverse_step v k = (if traversable v \<and> js_in k v then js_read v k else JUndefined)"
  by (cases v) (auto simp: traverse_step_def inherited_def)

lemma traverse_is_walk: "foldl traverse_step v ks = walk_fields v ks"
proof (induction ks arbitrary: v)
  case Nil
  show ?case by simp
next
  case (Cons k ks)
  show ?case
  proof (cases "traversable v \<and> js_in k v")
    case True
    then have "traverse_step v k = js_read v k"
      by (auto simp: traverse_step_walk)
    then show ?thesis using True Cons [of "js_read v k"] by auto
  next
    case False
    then have "traverse_step v k = JUndefined"
      by (auto simp: traverse_step_walk)
    then show ?thesis using False by (auto simp: traverse_undefined)
  qed
qed

text \<open>
  C7. A definition whose value is an object with a \<open>value\<close> field resolves to that
  field. A string \<open>?key\<close> resolves to \<open>req.param(key)\<close>, and a string \<open>$key\<close> to
  the property \<open>key\<close> of the cookie map \<open>req.cookies\<close>. A string \<open>req.\<close> followed
  by a path always resolves, without an error, to the result of walking from the request
  along the pieces of the path between the dots, the leading \<open>req\<close> dropped: a piece
  that is a field of the object reached leads on to the value of that field, which is the
  result when the piece is the last; a piece that is missing, or a value reached that is
  no object, gives \<open>undefined\<close>, whatever pieces follow.
\<close>

theorem extract_param_resolution:
  "(map_of w ''value'' = Some x \<longrightarrow> extract_param funs req (name, JObj w) = Inr x) \<and>
   (js_read (JObj req) ''param'' = JFun f \<longrightarrow>
      extract_param funs req (name, JStr (CHR ''?'' # key)) = Inr (as_param (funs f) req key)) \<and>
   (js_read (JObj req) ''cookies'' = JObj cookies \<longrightarrow>
      extract_param funs req (name, JStr (CHR ''$'' # key)) = Inr (js_read (JObj cookies) key)) \<and>
   (map_of cookies key = Some y \<longrightarrow> js_read (JObj cookies) key = y) \<and>
   extract_param funs req (name, JStr (''req.'' @ path)) =
     Inr (walk_fields (JObj req) (tl (js_split CHR ''.'' (''req.'' @ path)))) \<and>
   tl (js_split CHR ''.'' (''req.'' @ path)) = js_split CHR ''.'' path \<and>
   walk_fields v [] = v \<and>
   (map_of fs k = Some z \<longrightarrow> walk_fields (JObj fs) (k # ks) = walk_fields z ks) \<and>
   (\<not> traversable v \<or> \<not> js_in k v \<longrightarrow> walk_fields v (k # ks) = JUndefined)"
proof (intro conjI impI)
  assume "map_of w ''value'' = Some x"
  then show "extract_param funs req (name, JObj w) = Inr x"
    by (simp add: extract_param_def)
next
  assume "js_read (JObj req) ''param'' = JFun f"
  then show "extract_param funs req (name, JStr (CHR ''?'' # key)) = Inr (as_param (funs f) req key)"
    by (simp add: extract_param_def startsWith_def)
next
  assume "js_read (JObj req) ''cookies'' = JObj cookies"
  then show "extract_param funs req (name, JStr (CHR ''$'' # key)) = Inr (js_read (JObj cookies) key)"
    by (simp add: extract_param_def startsWith_def)
next
  assume "map_of cookies key = Some y"
  then show "js_read (JObj cookies) key = y" by simp
next
  have "startsWith (''req.'' @ path) ''req.''" "\<not> startsWith (''req.'' @ path) ''?''"
       "\<not> startsWith (''req.'' @ path) ''$''"
    by (simp_all add: startsWith_def)
  then show "extract_param funs req (name, JStr (''req.'' @ path)) =
     Inr (walk_fields (JObj req) (tl (js_split CHR ''.'' (''req.'' @ path))))"
    unfolding extract_param_def Let_def by (simp add: traverse_is_walk)
next
  show "tl (js_split CHR ''.'' (''req.'' @ path)) = js_split CHR ''.'' path"
    by (simp add: js_split_req)
next
  show "walk_fields v [] = v" by simp
next
  assume "map_of fs k = Some z"
  then show "walk_fields (JObj fs) (k # ks) = walk_fields z ks" by simp
next
  assume "\<not> traversable v \<or> \<not> js_in k v"
  then show "walk_fields v (k # ks) = JUndefined" by auto
qed

theorem extract_param_resolution_witness:
  "map_of [(''value'', JNum 3)] ''value'' = Some (JNum 3) \<and>
   extract_param ex_funs ex_request (''self'', JObj [(''value'', JNum 3)]) = Inr (JNum 3) \<and>
   js_read (JObj ex_request) ''param'' = JFun 6 \<and>
   extract_param ex_funs ex_request (''self'', JStr ''?targetUserID'') = Inr (JStr ''42'') \<and>
   js_read (JObj ex_request) ''cookies'' = JObj [(''loggedUser'', JStr ''ann'')] \<and>
   extract_param ex_funs ex_request (''self'', JStr ''$loggedUser'') = Inr (JStr ''ann'') \<and>
   extract_param ex_funs ex_request (''self'', JStr ''req.ip'') = Inr (JStr ''10.0.0.1'') \<and>
   extract_param ex_funs ex_request (''self'', JStr ''req.auth.user.id'') = Inr (JNum 7) \<and>
   extract_param ex_funs ex_request (''self'', JStr ''req.auth.nobody.id'') = Inr JUndefined \<and>
   extract_param ex_funs ex_request (''self'', JStr ''req.ip.length'') = Inr JUndefined \<and>
   extract_param ex_funs ex_request (''self'', JStr ''req.auth.toString'') =
     Inr (native_fun ''toString'')"
proof -
  note w = extract_param_resolution
    [where w = "[(''value'', JNum 3)]" and x = "JNum 3" and funs = ex_funs and req = ex_request
       and name = "''self''" and f = 6 and cookies = "[(''loggedUser'', JStr ''ann'')]"]
  have h1: "map_of [(''value'', JNum 3)] ''value'' = Some (JNum 3)" by simp
  have h2: "js_read (JObj ex_request) ''param'' = JFun 6" by (simp add: ex_request_def)
  have h3: "js_read (JObj ex_request) ''cookies'' = JObj [(''loggedUser'', JStr ''ann'')]"
    by (simp add: ex_request_def)
  have c1: "extract_param ex_funs ex_request (''self'', JObj [(''value'', JNum 3)]) = Inr (JNum 3)"
    using w h1 by blast
  have c2: "extract_param ex_funs ex_request (''self'', JStr ''?targetUserID'') = Inr (JStr ''42'')"
    using w [where key = "''targetUserID''"] h2
    by (simp add: ex_funs_def lookup_fn_def ex_request_def)
  have c3: "extract_param ex_funs ex_request (''self'', JStr ''$loggedUser'') = Inr (JStr ''ann'')"
    using w [where key = "''loggedUser''"] h3 by simp
  have c4: "extract_param ex_funs ex_request (''self'', JStr ''req.ip'') = Inr (JStr ''10.0.0.1'')"
    using w [where path = "''ip''"] by (simp add: ex_request_def)
  have c5: "extract_param ex_funs ex_request (''self'', JStr ''req.auth.user.id'') = Inr (JNum 7)"
    using w [where path = "''auth.user.id''"] by (simp add: ex_request_def)
  have c6: "extract_param ex_funs ex_request (''self'', JStr ''req.auth.nobody.id'') = Inr JUndefined"
    using w [where path = "''auth.nobody.id''"] by (simp add: ex_request_def native_names_def)
  have c7: "extract_param ex_funs ex_request (''self'', JStr ''req.ip.length'') = Inr JUndefined"
    using w [where path = "''ip.length''"] by (simp add: ex_request_def)
  have c8: "extract_param ex_funs ex_request (''self'', JStr ''req.auth.toString'') =
              Inr (native_fun ''toString'')"
    using w [where path = "''auth.toString''"]
    by (simp add: ex_request_def native_names_def inherited_def)
  show ?thesis
    by (intro conjI) (fact h1, fact c1, fact h2, fact c2, fact h3, fact c3, fact c4, fact c5,
                      fact c6, fact c7, fact c8)
qed

section \<open>What parameter extraction writes to the request\<close>









end
